theory Spec2Isabelle
  imports Main
begin

section \<open>The debugger bridge of nuclide-debugger (lib/Bridge.js)\<close>

subsection \<open>JavaScript values on the wire\<close>

text \<open>
  The payloads of the channel are untyped (\<^verbatim>\<open>args: any[]\<close>). Numbers of the protocol
  (thread ids, line numbers, evaluation ids) are integers and are kept as mathematical
  integers: the rounding of integers beyond 2^53 to a double is not represented. Strings
  are lists of characters.
\<close>

datatype jsval =
    JUndefined
  | JNull
  | JBool bool
  | JNum int
  | JStr string
  | JArr "jsval list"
  | JObj "(string \<times> jsval) list"

datatype error =
    TypeError
  | AssertionError
  | Thrown jsval

text \<open>How a call of a \<^verbatim>\<open>void\<close> method ends: it returns, or an exception leaves it.\<close>

datatype completion = Returned | Threw error

text \<open>\<^verbatim>\<open>if (v)\<close>: the falsy values are undefined, null, false, 0 and the empty string.\<close>

fun truthy :: "jsval \<Rightarrow> bool" where
  "truthy JUndefined = False"
| "truthy JNull = False"
| "truthy (JBool b) = b"
| "truthy (JNum n) = (n \<noteq> 0)"
| "truthy (JStr s) = (s \<noteq> [])"
| "truthy (JArr xs) = True"
| "truthy (JObj fs) = True"

text \<open>\<^verbatim>\<open>v == null\<close> (loose equality): true of null and of undefined only.\<close>

fun is_nullish :: "jsval \<Rightarrow> bool" where
  "is_nullish JUndefined = True"
| "is_nullish JNull = True"
| "is_nullish v = False"

text \<open>
  \<^verbatim>\<open>v.k\<close> for the property names the bridge reads (resolved, sourceURL, lineNumber,
  condition, enabled, stopThreadId, threadSwitchNotification, message, id; none of them
  is a built-in property of a primitive or of an array): reading a property of undefined
  or null throws a TypeError, a plain object gives the value stored under the key or
  undefined, every other value gives undefined.
\<close>

fun get_prop :: "jsval \<Rightarrow> string \<Rightarrow> error + jsval" where
  "get_prop JUndefined k = Inl TypeError"
| "get_prop JNull k = Inl TypeError"
| "get_prop (JObj fs) k = Inr (case map_of fs k of None \<Rightarrow> JUndefined | Some v \<Rightarrow> v)"
| "get_prop v k = Inr JUndefined"

text \<open>The same read once the receiver is known not to be null or undefined.\<close>

fun field :: "jsval \<Rightarrow> string \<Rightarrow> jsval" where
  "field (JObj fs) k = (case map_of fs k of None \<Rightarrow> JUndefined | Some v \<Rightarrow> v)"
| "field v k = JUndefined"

text \<open>\<^verbatim>\<open>args[i]\<close>: undefined beyond the end of the array.\<close>

definition arg :: "jsval list \<Rightarrow> nat \<Rightarrow> jsval" where
  "arg xs i = (if i < length xs then xs ! i else JUndefined)"

subsection \<open>parseInt(string, 10)\<close>

text \<open>
  A JavaScript number as \<^verbatim>\<open>parseInt\<close> can return it: NaN, a finite double whose value is
  an integer (\<open>Finite 0\<close> is +0), -0, or an infinity.
\<close>

datatype number = NaN | NegZero | Finite int | PosInfinity | NegInfinity

definition isNaN :: "number \<Rightarrow> bool" where
  "isNaN x = (x = NaN)"

text \<open>
  The double nearest to a non-negative integer, ties to the even significand: an integer
  below 2^53 is a double; a larger one keeps its 53 leading bits, \<open>shift_count\<close> being the
  number of bits dropped, and is rounded on the dropped part; a result of 2^1024 or more
  is no finite double (\<open>None\<close>).
\<close>

function shift_count :: "int \<Rightarrow> nat" where
  "shift_count n = (if n < 2 ^ 53 then 0 else Suc (shift_count (n div 2)))"
  by pat_completeness auto
termination
  by (relation "measure nat") auto

declare shift_count.simps [simp del]

definition round_to_double :: "int \<Rightarrow> int option" where
  "round_to_double n =
     (let e = shift_count n;
          q = n div 2 ^ e;
          r = n mod 2 ^ e;
          q' = (if 2 ^ e < 2 * r \<or> (2 * r = 2 ^ e \<and> odd q) then q + 1 else q);
          v = q' * 2 ^ e
      in if v < 2 ^ 1024 then Some v else None)"

definition to_number :: "bool \<Rightarrow> int \<Rightarrow> number" where
  "to_number negative mathInt =
     (case round_to_double mathInt of
        None \<Rightarrow> if negative then NegInfinity else PosInfinity
      | Some v \<Rightarrow> if negative then (if v = 0 then NegZero else Finite (- v)) else Finite v)"

text \<open>
  ECMAScript's parseInt with radix 10: leading white space is dropped, one sign is read,
  then the longest run of decimal digits; no digit gives NaN, whatever follows the digits
  is ignored, and the result is the double nearest to the signed value of the digits. A
  character is a code unit below 256, so of the white space of ECMAScript these exist:
  TAB, LF, VT, FF, CR, SP and the no-break space U+00A0. The specification lets an
  implementation zero the digits after the twentieth; the rounding here is that of the
  exact value.
\<close>

definition is_white_space :: "char \<Rightarrow> bool" where
  "is_white_space c =
     (c \<in> set [CHR 0x09, CHR 0x0A, CHR 0x0B, CHR 0x0C, CHR 0x0D, CHR 0x20, CHR 0xA0])"

definition is_digit :: "char \<Rightarrow> bool" where
  "is_digit c = (c \<in> set ''0123456789'')"

definition digit_value :: "char \<Rightarrow> int" where
  "digit_value c = of_char c - 48"

definition decimal :: "string \<Rightarrow> int" where
  "decimal ds = foldl (\<lambda>acc c. 10 * acc + digit_value c) 0 ds"

definition parseInt :: "string \<Rightarrow> number" where
  "parseInt inputString =
     (let S = dropWhile is_white_space inputString;
          negative = (S \<noteq> [] \<and> hd S = CHR ''-'');
          S' = (if S \<noteq> [] \<and> (hd S = CHR ''+'' \<or> hd S = CHR ''-'') then tl S else S);
          Z = takeWhile is_digit S'
      in if Z = [] then NaN else to_number negative (decimal Z))"

subsection \<open>The bridge and its collaborators\<close>

text \<open>A command handed to \<^verbatim>\<open>_commandDispatcher.send\<close>: its name and its arguments.\<close>

datatype command = Command string "jsval list"

text \<open>
  Modelled from the spec: \<^verbatim>\<open>DebuggerMode\<close> is imported from DebuggerStore, which is
  not among the sources; the bridge uses PAUSED and RUNNING.
\<close>

datatype debugger_mode = RUNNING | PAUSED | STOPPED

text \<open>
  The calls the bridge makes on the debugger model, \<^verbatim>\<open>getActions().f(...)\<close> and
  \<^verbatim>\<open>getStore().loaderBreakpointResumed()\<close>, with the arguments it passes. The model
  itself is a collaborator outside the bridge; what the bridge does to it is the sequence
  of these calls, recorded in \<open>calls\<close>, oldest first. A call of a collaborator is taken
  to return, except where the source provides for its failure: the two breakpoint
  mutations inside \<^verbatim>\<open>try ... finally\<close> below.
\<close>

datatype model_call =
    UpdateSelectedThread number
  | ReceiveExpressionEvaluationResponse jsval jsval
  | ReceiveGetPropertiesResponse jsval jsval
  | UpdateCallstack jsval
  | UpdateScopes jsval
  | SetDebuggerMode debugger_mode
  | LoaderBreakpointResumed
  | ClearInterface
  | SetSelectedCallFrameLine jsval
  | OpenSourceLocation jsval jsval
  | NotifyThreadSwitch jsval jsval jsval
  | BindBreakpointIPC jsval jsval jsval jsval bool
  | DeleteBreakpointIPC jsval jsval
  | UpdateThreads jsval
  | UpdateThread jsval
  | UpdateStopThread jsval

record webview_element =
  src :: string
  devToolsOpened :: nat

record bridge =
  suppressBreakpointSync :: bool
  sent :: "command list"
  calls :: "model_call list"
  webview :: "webview_element option"
  webviewUrl :: "string option"
  cleanupDisposables :: bool

text \<open>The constructor: the flag starts false, nothing is sent, no webview is attached.\<close>

definition Bridge_new :: bridge where
  "Bridge_new =
     \<lparr>suppressBreakpointSync = False, sent = [], calls = [], webview = None,
      webviewUrl = None, cleanupDisposables = False\<rparr>"

text \<open>
  Modelled from the spec: CommandDispatcher is not among the sources. Its \<^verbatim>\<open>send\<close>
  serialises the command onto the transport, fire-and-forget, with no acknowledgement;
  every call of it is recorded in \<open>sent\<close>, oldest first.
\<close>

definition send :: "string \<Rightarrow> jsval list \<Rightarrow> bridge \<Rightarrow> bridge" where
  "send name args s = s\<lparr>sent := sent s @ [Command name args]\<rparr>"

definition call_action :: "model_call \<Rightarrow> bridge \<Rightarrow> bridge" where
  "call_action a s = s\<lparr>calls := calls s @ [a]\<rparr>"

text \<open>
  A breakpoint as the breakpoint store holds it (\<^verbatim>\<open>FileLineBreakpoint\<close>; the bridge reads
  these four fields), and the argument of the store's user-change event.
\<close>

record file_line_breakpoint =
  path :: string
  line :: int
  condition :: string
  enabled :: bool

record user_change =
  action :: string
  breakpoint :: file_line_breakpoint

text \<open>
  What the model does while the bridge waits in \<^verbatim>\<open>bindBreakpointIPC\<close> or
  \<^verbatim>\<open>deleteBreakpointIPC\<close>: the breakpoint store may deliver user-change events to the
  listener the constructor registered with \<^verbatim>\<open>onUserChange\<close>, and the call may end in an
  exception.
\<close>

record reaction =
  emits :: "user_change list"
  throws :: "jsval option"

text \<open>
  Everything the bridge reads from outside itself at one moment: the two functions of
  nuclide-commons/nuclideUri (not among the sources, taken as they are), the debugger
  store's settings and flags, the breakpoint store's breakpoints, the editor's
  configuration, and the model's reaction to a breakpoint mutation.
\<close>

record world =
  uriToNuclideUri :: "jsval \<Rightarrow> jsval"
  nuclideUriToUri :: "string \<Rightarrow> string"
  serializedSettings :: jsval
  allBreakpoints :: "file_line_breakpoint list"
  togglePauseOnException :: bool
  togglePauseOnCaughtException :: bool
  enableSingleThreadStepping :: bool
  openDevToolsOnDebuggerStart :: bool
  reaction_of :: "model_call \<Rightarrow> reaction"

subsection \<open>Outbound operations\<close>

definition continue :: "bridge \<Rightarrow> bridge" where
  "continue s = send ''Continue'' [] s"

definition stepOver :: "bridge \<Rightarrow> bridge" where
  "stepOver s = send ''StepOver'' [] s"

definition stepInto :: "bridge \<Rightarrow> bridge" where
  "stepInto s = send ''StepInto'' [] s"

definition stepOut :: "bridge \<Rightarrow> bridge" where
  "stepOut s = send ''StepOut'' [] s"

definition runToLocation :: "string \<Rightarrow> int \<Rightarrow> bridge \<Rightarrow> bridge" where
  "runToLocation filePath ln s = send ''RunToLocation'' [JStr filePath, JNum ln] s"

definition triggerAction :: "string \<Rightarrow> bridge \<Rightarrow> bridge" where
  "triggerAction actionId s = send ''triggerDebuggerAction'' [JStr actionId] s"

definition setSelectedCallFrameIndex :: "int \<Rightarrow> bridge \<Rightarrow> bridge" where
  "setSelectedCallFrameIndex callFrameIndex s =
     send ''setSelectedCallFrameIndex'' [JNum callFrameIndex] s"

definition setPauseOnException :: "bool \<Rightarrow> bridge \<Rightarrow> bridge" where
  "setPauseOnException pauseOnExceptionEnabled s =
     send ''setPauseOnException'' [JBool pauseOnExceptionEnabled] s"

definition setPauseOnCaughtException :: "bool \<Rightarrow> bridge \<Rightarrow> bridge" where
  "setPauseOnCaughtException pauseOnCaughtExceptionEnabled s =
     send ''setPauseOnCaughtException'' [JBool pauseOnCaughtExceptionEnabled] s"

definition setSingleThreadStepping :: "bool \<Rightarrow> bridge \<Rightarrow> bridge" where
  "setSingleThreadStepping singleThreadStepping s =
     send ''setSingleThreadStepping'' [JBool singleThreadStepping] s"

definition selectThread :: "string \<Rightarrow> bridge \<Rightarrow> bridge" where
  "selectThread threadId s =
     (let s1 = send ''selectThread'' [JStr threadId] s;
          threadNo = parseInt threadId
      in if \<not> isNaN threadNo then call_action (UpdateSelectedThread threadNo) s1 else s1)"

definition sendEvaluationCommand :: "string \<Rightarrow> int \<Rightarrow> jsval list \<Rightarrow> bridge \<Rightarrow> bridge" where
  "sendEvaluationCommand cmd evalId rest s = send cmd (JNum evalId # rest) s"

definition openDevTools :: "bridge \<Rightarrow> bridge" where
  "openDevTools s =
     (case webview s of
        None \<Rightarrow> s
      | Some wv \<Rightarrow> s\<lparr>webview := Some (wv\<lparr>devToolsOpened := Suc (devToolsOpened wv)\<rparr>)\<rparr>)"

subsection \<open>Breakpoint synchronisation\<close>

text \<open>
  The object literal \<^verbatim>\<open>{sourceURL, lineNumber, condition, enabled}\<close> that
  \<^verbatim>\<open>_handleUserBreakpointChange\<close> and \<^verbatim>\<open>_sendAllBreakpoints\<close> both build from a
  breakpoint of the store.
\<close>

definition ipc_breakpoint :: "world \<Rightarrow> file_line_breakpoint \<Rightarrow> jsval" where
  "ipc_breakpoint w bp =
     JObj [(''sourceURL'', JStr (nuclideUriToUri w (path bp))),
           (''lineNumber'', JNum (line bp)),
           (''condition'', JStr (condition bp)),
           (''enabled'', JBool (enabled bp))]"

definition handleUserBreakpointChange :: "world \<Rightarrow> user_change \<Rightarrow> bridge \<Rightarrow> bridge" where
  "handleUserBreakpointChange w params s =
     send (action params) [ipc_breakpoint w (breakpoint params)] s"

text \<open>The \<^verbatim>\<open>forEach\<close> pushes one entry per breakpoint onto \<^verbatim>\<open>results\<close>, in order.\<close>

definition sendAllBreakpoints :: "world \<Rightarrow> bridge \<Rightarrow> bridge" where
  "sendAllBreakpoints w s =
     (if \<not> suppressBreakpointSync s then
        (let results = foldl (\<lambda>res bp. res @ [ipc_breakpoint w bp]) [] (allBreakpoints w)
         in send ''SyncBreakpoints'' [JArr results] s)
      else s)"

text \<open>
  A breakpoint mutation of the model: the call is made, the store delivers the
  user-change events of its reaction to the listener, and the call returns or throws.
\<close>

definition call_mutation :: "world \<Rightarrow> model_call \<Rightarrow> bridge \<Rightarrow> completion \<times> bridge" where
  "call_mutation w a s =
     (let r = reaction_of w a;
          s1 = call_action a s;
          s2 = foldl (\<lambda>st params. handleUserBreakpointChange w params st) s1 (emits r)
      in (case throws r of None \<Rightarrow> Returned | Some v \<Rightarrow> Threw (Thrown v), s2))"

text \<open>
  \<^verbatim>\<open>try { flag = true; mutation } finally { flag = false }\<close>: the assignment of the
  \<^verbatim>\<open>finally\<close> block runs on both ways out, and an exception goes on to the caller.
  Destructuring a breakpoint that is null or undefined throws a TypeError.
\<close>

definition bindBreakpoint :: "world \<Rightarrow> jsval \<Rightarrow> bool \<Rightarrow> bridge \<Rightarrow> completion \<times> bridge" where
  "bindBreakpoint w bp resolved s =
     (if is_nullish bp then (Threw TypeError, s)
      else
        (let sourceURL = field bp ''sourceURL'';
             lineNumber = field bp ''lineNumber'';
             cond = field bp ''condition'';
             en = field bp ''enabled'';
             p = uriToNuclideUri w sourceURL
         in if truthy p then
              (let s1 = s\<lparr>suppressBreakpointSync := True\<rparr>;
                   r = call_mutation w (BindBreakpointIPC p lineNumber cond en resolved) s1
               in (fst r, (snd r)\<lparr>suppressBreakpointSync := False\<rparr>))
            else (Returned, s)))"

definition removeBreakpoint :: "world \<Rightarrow> jsval \<Rightarrow> bridge \<Rightarrow> completion \<times> bridge" where
  "removeBreakpoint w bp s =
     (if is_nullish bp then (Threw TypeError, s)
      else
        (let sourceURL = field bp ''sourceURL'';
             lineNumber = field bp ''lineNumber'';
             p = uriToNuclideUri w sourceURL
         in if truthy p then
              (let s1 = s\<lparr>suppressBreakpointSync := True\<rparr>;
                   r = call_mutation w (DeleteBreakpointIPC p lineNumber) s1
               in (fst r, (snd r)\<lparr>suppressBreakpointSync := False\<rparr>))
            else (Returned, s)))"

subsection \<open>Inbound events\<close>

definition handleExpressionEvaluationResponse :: "jsval \<Rightarrow> bridge \<Rightarrow> completion \<times> bridge" where
  "handleExpressionEvaluationResponse response s =
     (case get_prop response ''id'' of
        Inl e \<Rightarrow> (Threw e, s)
      | Inr i \<Rightarrow> (Returned, call_action (ReceiveExpressionEvaluationResponse i response) s))"

definition handleGetPropertiesResponse :: "jsval \<Rightarrow> bridge \<Rightarrow> completion \<times> bridge" where
  "handleGetPropertiesResponse response s =
     (case get_prop response ''id'' of
        Inl e \<Rightarrow> (Threw e, s)
      | Inr i \<Rightarrow> (Returned, call_action (ReceiveGetPropertiesResponse i response) s))"

definition handleCallstackUpdate :: "jsval \<Rightarrow> bridge \<Rightarrow> bridge" where
  "handleCallstackUpdate callstack s = call_action (UpdateCallstack callstack) s"

definition handleScopesUpdate :: "jsval \<Rightarrow> bridge \<Rightarrow> bridge" where
  "handleScopesUpdate scopeSections s = call_action (UpdateScopes scopeSections) s"

definition updateDebuggerSettings :: "world \<Rightarrow> bridge \<Rightarrow> bridge" where
  "updateDebuggerSettings w s = send ''UpdateSettings'' [serializedSettings w] s"

definition syncDebuggerState :: "world \<Rightarrow> bridge \<Rightarrow> bridge" where
  "syncDebuggerState w s =
     setSingleThreadStepping (enableSingleThreadStepping w)
       (setPauseOnCaughtException (togglePauseOnCaughtException w)
         (setPauseOnException (togglePauseOnException w) s))"

definition handleStopThreadUpdate :: "jsval \<Rightarrow> bridge \<Rightarrow> bridge" where
  "handleStopThreadUpdate i s = call_action (UpdateStopThread i) s"

definition handleStopThreadSwitch :: "jsval \<Rightarrow> bridge \<Rightarrow> bridge" where
  "handleStopThreadSwitch options s =
     (if is_nullish options then s
      else call_action
             (NotifyThreadSwitch (field options ''sourceURL'') (field options ''lineNumber'')
                (field options ''message'')) s)"

definition handleDebuggerPaused :: "jsval \<Rightarrow> bridge \<Rightarrow> bridge" where
  "handleDebuggerPaused options s =
     (let s1 = call_action (SetDebuggerMode PAUSED) s
      in if \<not> is_nullish options then
           (let s2 = (if \<not> is_nullish (field options ''stopThreadId'')
                      then handleStopThreadUpdate (field options ''stopThreadId'') s1
                      else s1)
            in handleStopThreadSwitch (field options ''threadSwitchNotification'') s2)
         else s1)"

definition handleDebuggerResumed :: "bridge \<Rightarrow> bridge" where
  "handleDebuggerResumed s = call_action (SetDebuggerMode RUNNING) s"

definition handleLoaderBreakpointResumed :: "bridge \<Rightarrow> bridge" where
  "handleLoaderBreakpointResumed s = call_action LoaderBreakpointResumed s"

definition handleClearInterface :: "bridge \<Rightarrow> bridge" where
  "handleClearInterface s = call_action ClearInterface s"

definition setSelectedCallFrameLine :: "jsval \<Rightarrow> bridge \<Rightarrow> bridge" where
  "setSelectedCallFrameLine options s = call_action (SetSelectedCallFrameLine options) s"

definition openSourceLocation :: "jsval \<Rightarrow> bridge \<Rightarrow> bridge" where
  "openSourceLocation options s =
     (if is_nullish options then s
      else call_action
             (OpenSourceLocation (field options ''sourceURL'') (field options ''lineNumber'')) s)"

definition handleThreadsUpdate :: "jsval \<Rightarrow> bridge \<Rightarrow> bridge" where
  "handleThreadsUpdate threadData s = call_action (UpdateThreads threadData) s"

definition handleThreadUpdate :: "jsval \<Rightarrow> bridge \<Rightarrow> bridge" where
  "handleThreadUpdate thread s = call_action (UpdateThread thread) s"

text \<open>The message of the webview's \<^verbatim>\<open>ipc-message\<close> event.\<close>

record ipc_event =
  channel :: string
  args :: "jsval list"

text \<open>
  The two nested \<^verbatim>\<open>switch\<close> statements compare with \<^verbatim>\<open>===\<close>, case by case in the order
  of the source; a value that matches no case falls through both. In the case
  BreakpointAdded the argument \<^verbatim>\<open>event.args[1].resolved === true\<close> is evaluated before
  the call.
\<close>

definition handleIpcMessage :: "world \<Rightarrow> ipc_event \<Rightarrow> bridge \<Rightarrow> completion \<times> bridge" where
  "handleIpcMessage w event s =
     (if channel event = ''notification'' then
        (let name = arg (args event) 0; payload = arg (args event) 1
         in if name = JStr ''ready'' then
              (let s0 = (if openDevToolsOnDebuggerStart w then openDevTools s else s)
               in (Returned, syncDebuggerState w (sendAllBreakpoints w (updateDebuggerSettings w s0))))
            else if name = JStr ''CallFrameSelected'' then
              (Returned, setSelectedCallFrameLine payload s)
            else if name = JStr ''OpenSourceLocation'' then
              (Returned, openSourceLocation payload s)
            else if name = JStr ''ClearInterface'' then
              (Returned, handleClearInterface s)
            else if name = JStr ''DebuggerResumed'' then
              (Returned, handleDebuggerResumed s)
            else if name = JStr ''LoaderBreakpointResumed'' then
              (Returned, handleLoaderBreakpointResumed s)
            else if name = JStr ''BreakpointAdded'' then
              (case get_prop payload ''resolved'' of
                 Inl e \<Rightarrow> (Threw e, s)
               | Inr r \<Rightarrow> bindBreakpoint w payload (r = JBool True) s)
            else if name = JStr ''BreakpointRemoved'' then
              removeBreakpoint w payload s
            else if name = JStr ''NonLoaderDebuggerPaused'' then
              (Returned, handleDebuggerPaused payload s)
            else if name = JStr ''ExpressionEvaluationResponse'' then
              handleExpressionEvaluationResponse payload s
            else if name = JStr ''GetPropertiesResponse'' then
              handleGetPropertiesResponse payload s
            else if name = JStr ''CallstackUpdate'' then
              (Returned, handleCallstackUpdate payload s)
            else if name = JStr ''ScopesUpdate'' then
              (Returned, handleScopesUpdate payload s)
            else if name = JStr ''ThreadsUpdate'' then
              (Returned, handleThreadsUpdate payload s)
            else if name = JStr ''ThreadUpdate'' then
              (Returned, handleThreadUpdate payload s)
            else (Returned, s))
      else (Returned, s))"

subsection \<open>The webview\<close>

text \<open>
  \<^verbatim>\<open>_setWebviewElement\<close> keeps the element, asserts that no session disposables are held
  and subscribes to the element's messages; \<^verbatim>\<open>cleanup\<close> disposes of them, which removes
  the element and clears both fields.
\<close>

definition setWebviewElement :: "webview_element \<Rightarrow> bridge \<Rightarrow> completion \<times> bridge" where
  "setWebviewElement wv s =
     (let s1 = s\<lparr>webview := Some wv\<rparr>
      in if cleanupDisposables s1 then (Threw AssertionError, s1)
         else (Returned, s1\<lparr>cleanupDisposables := True\<rparr>))"

definition renderChromeWebview :: "string \<Rightarrow> bridge \<Rightarrow> completion \<times> bridge" where
  "renderChromeWebview url s =
     (let r = (case webview s of
                 None \<Rightarrow> setWebviewElement \<lparr>src = url, devToolsOpened = 0\<rparr> s
               | Some wv \<Rightarrow>
                   (Returned,
                    if Some url \<noteq> webviewUrl s then s\<lparr>webview := Some (wv\<lparr>src := url\<rparr>)\<rparr> else s))
      in case fst r of
           Returned \<Rightarrow> (Returned, (snd r)\<lparr>webviewUrl := Some url\<rparr>)
         | Threw e \<Rightarrow> r)"

definition cleanup :: "bridge \<Rightarrow> bridge" where
  "cleanup s =
     (if cleanupDisposables s
      then s\<lparr>webview := None, webviewUrl := None, cleanupDisposables := False\<rparr>
      else s)"

subsection \<open>Sessions\<close>

text \<open>
  Everything that enters the bridge after its construction: a message of the webview, a
  user-change event of the breakpoint store, or a call of a public method. A session is
  a sequence of these, each with the world as it is at that moment; an exception that
  leaves a handler goes to the event loop, and the bridge lives on with the state it has.
\<close>

datatype operation =
    Op_ipcMessage ipc_event
  | Op_userBreakpointChange user_change
  | Op_continue
  | Op_stepOver
  | Op_stepInto
  | Op_stepOut
  | Op_runToLocation string int
  | Op_triggerAction string
  | Op_setSelectedCallFrameIndex int
  | Op_setPauseOnException bool
  | Op_setPauseOnCaughtException bool
  | Op_setSingleThreadStepping bool
  | Op_selectThread string
  | Op_sendEvaluationCommand string int "jsval list"
  | Op_renderChromeWebview string
  | Op_openDevTools
  | Op_cleanup

fun perform :: "world \<Rightarrow> operation \<Rightarrow> bridge \<Rightarrow> completion \<times> bridge" where
  "perform w (Op_ipcMessage event) s = handleIpcMessage w event s"
| "perform w (Op_userBreakpointChange params) s = (Returned, handleUserBreakpointChange w params s)"
| "perform w Op_continue s = (Returned, continue s)"
| "perform w Op_stepOver s = (Returned, stepOver s)"
| "perform w Op_stepInto s = (Returned, stepInto s)"
| "perform w Op_stepOut s = (Returned, stepOut s)"
| "perform w (Op_runToLocation filePath ln) s = (Returned, runToLocation filePath ln s)"
| "perform w (Op_triggerAction actionId) s = (Returned, triggerAction actionId s)"
| "perform w (Op_setSelectedCallFrameIndex i) s = (Returned, setSelectedCallFrameIndex i s)"
| "perform w (Op_setPauseOnException b) s = (Returned, setPauseOnException b s)"
| "perform w (Op_setPauseOnCaughtException b) s = (Returned, setPauseOnCaughtException b s)"
| "perform w (Op_setSingleThreadStepping b) s = (Returned, setSingleThreadStepping b s)"
| "perform w (Op_selectThread threadId) s = (Returned, selectThread threadId s)"
| "perform w (Op_sendEvaluationCommand cmd evalId rest) s =
     (Returned, sendEvaluationCommand cmd evalId rest s)"
| "perform w (Op_renderChromeWebview url) s = renderChromeWebview url s"
| "perform w Op_openDevTools s = (Returned, openDevTools s)"
| "perform w Op_cleanup s = (Returned, cleanup s)"

fun run :: "(world \<times> operation) list \<Rightarrow> bridge \<Rightarrow> bridge" where
  "run [] s = s"
| "run ((w, operation) # rest) s = run rest (snd (perform w operation s))"

subsection \<open>Concrete worlds\<close>

text \<open>
  A world for the concrete runs below. A \<^verbatim>\<open>file://\<close> URL names a local path, every other
  source URL names none; the store holds two breakpoints; the model mutates in silence.
  In the second world \<^verbatim>\<open>bindBreakpointIPC\<close> and \<^verbatim>\<open>deleteBreakpointIPC\<close> throw, in the
  third the store answers a mutation with a user-change event for the listener.
\<close>

definition example_uriToNuclideUri :: "jsval \<Rightarrow> jsval" where
  "example_uriToNuclideUri v =
     (case v of
        JStr u \<Rightarrow> if take 7 u = ''file://'' then JStr (drop 7 u) else JNull
      | _ \<Rightarrow> JNull)"

definition example_nuclideUriToUri :: "string \<Rightarrow> string" where
  "example_nuclideUriToUri p = ''file://'' @ p"

definition example_breakpoint :: file_line_breakpoint where
  "example_breakpoint = \<lparr>path = ''/a.js'', line = 3, condition = [], enabled = True\<rparr>"

definition example_change :: user_change where
  "example_change = \<lparr>action = ''AddBreakpoint'', breakpoint = example_breakpoint\<rparr>"

definition example_world :: world where
  "example_world =
     \<lparr>uriToNuclideUri = example_uriToNuclideUri,
      nuclideUriToUri = example_nuclideUriToUri,
      serializedSettings = JStr ''{}'',
      allBreakpoints =
        [example_breakpoint, \<lparr>path = ''/b.js'', line = 7, condition = ''x > 1'', enabled = False\<rparr>],
      togglePauseOnException = True,
      togglePauseOnCaughtException = False,
      enableSingleThreadStepping = False,
      openDevToolsOnDebuggerStart = False,
      reaction_of = (\<lambda>a. \<lparr>emits = [], throws = None\<rparr>)\<rparr>"

definition throwing_world :: world where
  "throwing_world =
     example_world\<lparr>reaction_of := (\<lambda>a. \<lparr>emits = [], throws = Some (JStr ''failed'')\<rparr>)\<rparr>"

definition echoing_world :: world where
  "echoing_world =
     example_world\<lparr>reaction_of := (\<lambda>a. \<lparr>emits = [example_change], throws = None\<rparr>)\<rparr>"

definition local_breakpoint :: jsval where
  "local_breakpoint =
     JObj [(''sourceURL'', JStr ''file:///a.js''), (''lineNumber'', JNum 3),
           (''condition'', JStr []), (''enabled'', JBool True), (''resolved'', JBool True)]"

definition remote_breakpoint :: jsval where
  "remote_breakpoint =
     JObj [(''sourceURL'', JStr ''http://host/a.js''), (''lineNumber'', JNum 3),
           (''condition'', JStr []), (''enabled'', JBool True), (''resolved'', JBool True)]"

text \<open>
  The fifteen event names the specification lists as handled; the handler itself is the
  \<^verbatim>\<open>switch\<close> of \<open>handleIpcMessage\<close>.
\<close>

definition handled_event_names :: "string list" where
  "handled_event_names =
     [''ready'', ''CallFrameSelected'', ''OpenSourceLocation'', ''ClearInterface'',
      ''DebuggerResumed'', ''LoaderBreakpointResumed'', ''BreakpointAdded'',
      ''BreakpointRemoved'', ''NonLoaderDebuggerPaused'', ''ExpressionEvaluationResponse'',
      ''GetPropertiesResponse'', ''CallstackUpdate'', ''ScopesUpdate'', ''ThreadsUpdate'',
      ''ThreadUpdate'']"

section \<open>The GraphQL outline (interfaces/getOutline.js)\<close>

























section \<open>Properties\<close>

subsection \<open>The state a handler leaves\<close>

lemma send_simps:
  "suppressBreakpointSync (send n a s) = suppressBreakpointSync s"
  "calls (send n a s) = calls s"
  "sent (send n a s) = sent s @ [Command n a]"
  "webview (send n a s) = webview s"
  by (simp_all add: send_def)

lemma call_action_simps:
  "suppressBreakpointSync (call_action a s) = suppressBreakpointSync s"
  "calls (call_action a s) = calls s @ [a]"
  "sent (call_action a s) = sent s"
  by (simp_all add: call_action_def)

lemma bindBreakpoint_flag:
  "suppressBreakpointSync (snd (bindBreakpoint w bp r s)) =
     (suppressBreakpointSync s \<and> (is_nullish bp \<or> \<not> truthy (uriToNuclideUri w (field bp ''sourceURL''))))"
  by (simp add: bindBreakpoint_def Let_def)

lemma removeBreakpoint_flag:
  "suppressBreakpointSync (snd (removeBreakpoint w bp s)) =
     (suppressBreakpointSync s \<and> (is_nullish bp \<or> \<not> truthy (uriToNuclideUri w (field bp ''sourceURL''))))"
  by (simp add: removeBreakpoint_def Let_def)

lemma outbound_flag:
  "suppressBreakpointSync (continue s) = suppressBreakpointSync s"
  "suppressBreakpointSync (stepOver s) = suppressBreakpointSync s"
  "suppressBreakpointSync (stepInto s) = suppressBreakpointSync s"
  "suppressBreakpointSync (stepOut s) = suppressBreakpointSync s"
  "suppressBreakpointSync (runToLocation f l s) = suppressBreakpointSync s"
  "suppressBreakpointSync (triggerAction a s) = suppressBreakpointSync s"
  "suppressBreakpointSync (setSelectedCallFrameIndex i s) = suppressBreakpointSync s"
  "suppressBreakpointSync (setPauseOnException b s) = suppressBreakpointSync s"
  "suppressBreakpointSync (setPauseOnCaughtException b s) = suppressBreakpointSync s"
  "suppressBreakpointSync (setSingleThreadStepping b s) = suppressBreakpointSync s"
  "suppressBreakpointSync (selectThread t s) = suppressBreakpointSync s"
  "suppressBreakpointSync (sendEvaluationCommand c e r s) = suppressBreakpointSync s"
  "suppressBreakpointSync (openDevTools s) = suppressBreakpointSync s"
  "suppressBreakpointSync (cleanup s) = suppressBreakpointSync s"
  "suppressBreakpointSync (handleUserBreakpointChange w p s) = suppressBreakpointSync s"
  by (simp_all add: continue_def stepOver_def stepInto_def stepOut_def runToLocation_def
      triggerAction_def setSelectedCallFrameIndex_def setPauseOnException_def
      setPauseOnCaughtException_def setSingleThreadStepping_def selectThread_def
      sendEvaluationCommand_def openDevTools_def cleanup_def handleUserBreakpointChange_def
      send_simps call_action_simps Let_def split: option.splits)

lemma inbound_flag:
  "suppressBreakpointSync (snd (handleExpressionEvaluationResponse v s)) = suppressBreakpointSync s"
  "suppressBreakpointSync (snd (handleGetPropertiesResponse v s)) = suppressBreakpointSync s"
  "suppressBreakpointSync (handleCallstackUpdate v s) = suppressBreakpointSync s"
  "suppressBreakpointSync (handleScopesUpdate v s) = suppressBreakpointSync s"
  "suppressBreakpointSync (updateDebuggerSettings w s) = suppressBreakpointSync s"
  "suppressBreakpointSync (sendAllBreakpoints w s) = suppressBreakpointSync s"
  "suppressBreakpointSync (syncDebuggerState w s) = suppressBreakpointSync s"
  "suppressBreakpointSync (handleDebuggerPaused v s) = suppressBreakpointSync s"
  "suppressBreakpointSync (handleDebuggerResumed s) = suppressBreakpointSync s"
  "suppressBreakpointSync (handleLoaderBreakpointResumed s) = suppressBreakpointSync s"
  "suppressBreakpointSync (handleClearInterface s) = suppressBreakpointSync s"
  "suppressBreakpointSync (setSelectedCallFrameLine v s) = suppressBreakpointSync s"
  "suppressBreakpointSync (openSourceLocation v s) = suppressBreakpointSync s"
  "suppressBreakpointSync (handleThreadsUpdate v s) = suppressBreakpointSync s"
  "suppressBreakpointSync (handleThreadUpdate v s) = suppressBreakpointSync s"
  by (simp_all add: handleExpressionEvaluationResponse_def handleGetPropertiesResponse_def
      handleCallstackUpdate_def handleScopesUpdate_def updateDebuggerSettings_def
      sendAllBreakpoints_def syncDebuggerState_def handleDebuggerPaused_def
      handleStopThreadUpdate_def handleStopThreadSwitch_def handleDebuggerResumed_def
      handleLoaderBreakpointResumed_def handleClearInterface_def setSelectedCallFrameLine_def
      openSourceLocation_def handleThreadsUpdate_def handleThreadUpdate_def outbound_flag
      send_simps call_action_simps Let_def split: sum.splits)

lemma handleIpcMessage_flag:
  "\<not> suppressBreakpointSync s \<Longrightarrow> \<not> suppressBreakpointSync (snd (handleIpcMessage w ev s))"
  unfolding handleIpcMessage_def Let_def
  by (simp add: bindBreakpoint_flag removeBreakpoint_flag inbound_flag outbound_flag
      split: sum.splits)

lemma renderChromeWebview_flag:
  "suppressBreakpointSync (snd (renderChromeWebview url s)) = suppressBreakpointSync s"
  by (simp add: renderChromeWebview_def setWebviewElement_def Let_def
      split: option.splits completion.splits)

lemma perform_flag:
  "\<not> suppressBreakpointSync s \<Longrightarrow> \<not> suppressBreakpointSync (snd (perform w operation s))"
  by (cases operation)
     (simp_all add: handleIpcMessage_flag outbound_flag renderChromeWebview_flag)

lemma run_flag:
  "\<not> suppressBreakpointSync s \<Longrightarrow> \<not> suppressBreakpointSync (run steps s)"
proof (induction steps arbitrary: s)
  case Nil
  then show ?case by simp
next
  case (Cons step steps)
  obtain w operation where step: "step = (w, operation)" by (cases step)
  from Cons.prems have "\<not> suppressBreakpointSync (snd (perform w operation s))"
    by (rule perform_flag)
  then show ?case using Cons.IH step by simp
qed

lemma run_new_flag: "\<not> suppressBreakpointSync (run steps Bridge_new)"
  by (rule run_flag) (simp add: Bridge_new_def)

subsection \<open>The claims\<close>

lemma shift_count_small: "n < 2 ^ 53 \<Longrightarrow> shift_count n = 0"
  by (simp add: shift_count.simps)

lemma shift_count_next: "2 ^ 53 \<le> n \<Longrightarrow> n < 2 ^ 54 \<Longrightarrow> shift_count n = 1"
  by (subst shift_count.simps) (simp add: shift_count_small)

lemma round_exact: "0 \<le> n \<Longrightarrow> n \<le> 2 ^ 53 \<Longrightarrow> round_to_double n = Some n"
proof (cases "n < 2 ^ 53")
  case True
  then have "n < 2 ^ 1024"
    by (rule less_trans) simp
  with True show ?thesis
    by (simp add: round_to_double_def shift_count_small)
next
  case False
  assume "n \<le> 2 ^ 53"
  with False have n: "n = 2 ^ 53" by simp
  have "shift_count n = 1"
    unfolding n by (rule shift_count_next) simp_all
  then show ?thesis
    unfolding n by (simp add: round_to_double_def)
qed

lemma parseInt_42: "parseInt ''42'' = Finite 42"
  by (simp add: parseInt_def is_white_space_def is_digit_def decimal_def digit_value_def
      to_number_def round_exact)

lemma parseInt_abc: "parseInt ''abc'' = NaN"
  by (simp add: parseInt_def is_white_space_def is_digit_def)

text \<open>
  C4. \<^verbatim>\<open>selectThread("42")\<close> sends the command selectThread with the argument "42" and
  calls the model's updateSelectedThread with the integer 42; \<^verbatim>\<open>selectThread("abc")\<close>
  sends the command and makes no call on the model, so the selected thread of the model
  stays as it was.
\<close>

theorem selectThread_42_abc:
  "selectThread ''42'' s =
     s\<lparr>sent := sent s @ [Command ''selectThread'' [JStr ''42'']],
       calls := calls s @ [UpdateSelectedThread (Finite 42)]\<rparr>
   \<and> selectThread ''abc'' s = s\<lparr>sent := sent s @ [Command ''selectThread'' [JStr ''abc'']]\<rparr>
   \<and> calls (selectThread ''abc'' s) = calls s"
  by (simp add: selectThread_def parseInt_42 parseInt_abc isNaN_def send_def call_action_def)

lemma listener_fold_calls:
  "calls (foldl (\<lambda>st params. handleUserBreakpointChange w params st) s evs) = calls s"
  by (induction evs arbitrary: s) (simp_all add: handleUserBreakpointChange_def send_simps)

lemma listener_fold_sent:
  "sent (foldl (\<lambda>st params. handleUserBreakpointChange w params st) s evs)
     = sent s @ map (\<lambda>params. Command (action params) [ipc_breakpoint w (breakpoint params)]) evs"
  by (induction evs arbitrary: s) (simp_all add: handleUserBreakpointChange_def send_simps)

lemma results_fold: "foldl (\<lambda>res bp. res @ [f bp]) acc bps = acc @ map f bps"
  by (induction bps arbitrary: acc) simp_all

text \<open>
  C1, as amended. The listener \<^verbatim>\<open>_handleUserBreakpointChange\<close> does not read
  \<^verbatim>\<open>_suppressBreakpointSync\<close>: for every user-change event, with the flag set or unset, it
  sends exactly one command, named by the action of the change and carrying
  \<^verbatim>\<open>{sourceURL, lineNumber, condition, enabled}\<close>, and changes nothing else.
\<close>

theorem user_change_sent_whatever_the_flag:
  "handleUserBreakpointChange w params (s\<lparr>suppressBreakpointSync := flag\<rparr>) =
     s\<lparr>suppressBreakpointSync := flag,
       sent := sent s @
         [Command (action params)
            [JObj [(''sourceURL'', JStr (nuclideUriToUri w (path (breakpoint params)))),
                   (''lineNumber'', JNum (line (breakpoint params))),
                   (''condition'', JStr (condition (breakpoint params))),
                   (''enabled'', JBool (enabled (breakpoint params)))]]]\<rparr>"
  by (simp add: handleUserBreakpointChange_def send_def ipc_breakpoint_def)

theorem user_change_sent_whatever_the_flag_witness:
  "sent (handleUserBreakpointChange example_world example_change
           (Bridge_new\<lparr>suppressBreakpointSync := False\<rparr>)) =
     [Command ''AddBreakpoint''
        [JObj [(''sourceURL'', JStr ''file:///a.js''), (''lineNumber'', JNum 3),
               (''condition'', JStr []), (''enabled'', JBool True)]]]"
  using user_change_sent_whatever_the_flag
    [where w = example_world and params = example_change and s = Bridge_new and flag = False]
  by (simp add: Bridge_new_def example_world_def example_change_def example_breakpoint_def
      example_nuclideUriToUri_def)

text \<open>
  C1 as stated fails: with the flag set, a user-change event still makes the listener
  send its command; so does a user-change event that the store emits while the bridge
  is inside \<^verbatim>\<open>bindBreakpointIPC\<close>, where the flag is set.
\<close>

theorem user_change_while_suppressed_counterexample:
  "suppressBreakpointSync (Bridge_new\<lparr>suppressBreakpointSync := True\<rparr>)
   \<and> sent (Bridge_new\<lparr>suppressBreakpointSync := True\<rparr>) = []
   \<and> sent (handleUserBreakpointChange example_world example_change
              (Bridge_new\<lparr>suppressBreakpointSync := True\<rparr>)) =
       [Command ''AddBreakpoint''
          [JObj [(''sourceURL'', JStr ''file:///a.js''), (''lineNumber'', JNum 3),
                 (''condition'', JStr []), (''enabled'', JBool True)]]]
   \<and> sent (snd (bindBreakpoint echoing_world local_breakpoint True Bridge_new)) =
       [Command ''AddBreakpoint''
          [JObj [(''sourceURL'', JStr ''file:///a.js''), (''lineNumber'', JNum 3),
                 (''condition'', JStr []), (''enabled'', JBool True)]]]"
  by (simp add: Bridge_new_def example_world_def example_change_def example_breakpoint_def
      example_nuclideUriToUri_def handleUserBreakpointChange_def send_def ipc_breakpoint_def
      bindBreakpoint_def call_mutation_def call_action_def echoing_world_def local_breakpoint_def
      example_uriToNuclideUri_def Let_def)

text \<open>
  C2. The flag \<^verbatim>\<open>_suppressBreakpointSync\<close> is false in every state a session reaches from
  the constructor, and a call of \<^verbatim>\<open>_bindBreakpoint\<close> or \<^verbatim>\<open>_removeBreakpoint\<close> (directly, or
  through the events BreakpointAdded and BreakpointRemoved) that starts with the flag
  false ends with the flag false, whether the model's mutation returns or throws.
\<close>

theorem suppression_flag_released:
  "\<not> suppressBreakpointSync (run steps Bridge_new)
   \<and> (\<not> suppressBreakpointSync s \<longrightarrow>
        \<not> suppressBreakpointSync (snd (bindBreakpoint w bp resolved s))
        \<and> \<not> suppressBreakpointSync (snd (removeBreakpoint w bp s))
        \<and> \<not> suppressBreakpointSync
             (snd (handleIpcMessage w \<lparr>channel = ''notification'', args = [JStr ''BreakpointAdded'', bp]\<rparr> s))
        \<and> \<not> suppressBreakpointSync
             (snd (handleIpcMessage w \<lparr>channel = ''notification'', args = [JStr ''BreakpointRemoved'', bp]\<rparr> s)))"
  by (simp add: run_new_flag bindBreakpoint_flag removeBreakpoint_flag handleIpcMessage_flag)

theorem suppression_flag_released_witness:
  "\<not> suppressBreakpointSync Bridge_new
   \<and> fst (bindBreakpoint throwing_world local_breakpoint True Bridge_new) = Threw (Thrown (JStr ''failed''))
   \<and> \<not> suppressBreakpointSync (snd (bindBreakpoint throwing_world local_breakpoint True Bridge_new))
   \<and> fst (removeBreakpoint throwing_world local_breakpoint Bridge_new) = Threw (Thrown (JStr ''failed''))
   \<and> \<not> suppressBreakpointSync (snd (removeBreakpoint throwing_world local_breakpoint Bridge_new))"
proof -
  have new: "\<not> suppressBreakpointSync Bridge_new"
    by (simp add: Bridge_new_def)
  have thrown:
    "fst (bindBreakpoint throwing_world local_breakpoint True Bridge_new) = Threw (Thrown (JStr ''failed''))"
    "fst (removeBreakpoint throwing_world local_breakpoint Bridge_new) = Threw (Thrown (JStr ''failed''))"
    by (simp_all add: bindBreakpoint_def removeBreakpoint_def call_mutation_def throwing_world_def
        example_world_def local_breakpoint_def example_uriToNuclideUri_def Let_def)
  from suppression_flag_released
    [where steps = "[]" and s = Bridge_new and w = throwing_world and bp = local_breakpoint
       and resolved = True] new thrown
  show ?thesis by simp
qed

text \<open>
  C3. In every state a session reaches, the message
  \<^verbatim>\<open>{channel: "notification", args: ["ready", undefined]}\<close> makes the bridge send, in this
  order and nothing else: UpdateSettings with the serialized settings, SyncBreakpoints
  with one entry per breakpoint of the store, setPauseOnException,
  setPauseOnCaughtException and setSingleThreadStepping with the flags of the store. The
  handler returns and makes no call on the model.
\<close>

theorem ready_handshake_order:
  "fst (handleIpcMessage w \<lparr>channel = ''notification'', args = [JStr ''ready'', JUndefined]\<rparr>
          (run steps Bridge_new)) = Returned
   \<and> sent (snd (handleIpcMessage w \<lparr>channel = ''notification'', args = [JStr ''ready'', JUndefined]\<rparr>
                  (run steps Bridge_new))) =
       sent (run steps Bridge_new) @
         [Command ''UpdateSettings'' [serializedSettings w],
          Command ''SyncBreakpoints''
            [JArr (map (\<lambda>bp. JObj [(''sourceURL'', JStr (nuclideUriToUri w (path bp))),
                                    (''lineNumber'', JNum (line bp)),
                                    (''condition'', JStr (condition bp)),
                                    (''enabled'', JBool (enabled bp))])
                       (allBreakpoints w))],
          Command ''setPauseOnException'' [JBool (togglePauseOnException w)],
          Command ''setPauseOnCaughtException'' [JBool (togglePauseOnCaughtException w)],
          Command ''setSingleThreadStepping'' [JBool (enableSingleThreadStepping w)]]
   \<and> calls (snd (handleIpcMessage w \<lparr>channel = ''notification'', args = [JStr ''ready'', JUndefined]\<rparr>
                   (run steps Bridge_new))) = calls (run steps Bridge_new)"
proof -
  define s where "s = run steps Bridge_new"
  have flag: "\<not> suppressBreakpointSync s"
    unfolding s_def by (rule run_new_flag)
  have dev: "sent (openDevTools s) = sent s" "calls (openDevTools s) = calls s"
    "suppressBreakpointSync (openDevTools s) = suppressBreakpointSync s"
    by (simp_all add: openDevTools_def split: option.splits)
  have entries: "foldl (\<lambda>res bp. res @ [ipc_breakpoint w bp]) [] (allBreakpoints w)
      = map (ipc_breakpoint w) (allBreakpoints w)"
    by (simp add: results_fold)
  have fn: "ipc_breakpoint w = (\<lambda>bp. JObj [(''sourceURL'', JStr (nuclideUriToUri w (path bp))),
                                    (''lineNumber'', JNum (line bp)),
                                    (''condition'', JStr (condition bp)),
                                    (''enabled'', JBool (enabled bp))])"
    by (rule ext) (simp add: ipc_breakpoint_def)
  show ?thesis
    unfolding s_def [symmetric]
    using flag dev
    by (simp add: handleIpcMessage_def arg_def Let_def syncDebuggerState_def
        sendAllBreakpoints_def updateDebuggerSettings_def setPauseOnException_def
        setPauseOnCaughtException_def setSingleThreadStepping_def send_simps results_fold fn)
qed

theorem ready_handshake_order_witness:
  "sent (snd (handleIpcMessage example_world
                \<lparr>channel = ''notification'', args = [JStr ''ready'', JUndefined]\<rparr>
                (run [(example_world, Op_continue)] Bridge_new))) =
     [Command ''Continue'' [],
      Command ''UpdateSettings'' [JStr ''{}''],
      Command ''SyncBreakpoints''
        [JArr [JObj [(''sourceURL'', JStr ''file:///a.js''), (''lineNumber'', JNum 3),
                     (''condition'', JStr []), (''enabled'', JBool True)],
               JObj [(''sourceURL'', JStr ''file:///b.js''), (''lineNumber'', JNum 7),
                     (''condition'', JStr ''x > 1''), (''enabled'', JBool False)]]],
      Command ''setPauseOnException'' [JBool True],
      Command ''setPauseOnCaughtException'' [JBool False],
      Command ''setSingleThreadStepping'' [JBool False]]"
  using ready_handshake_order [where w = example_world and steps = "[(example_world, Op_continue)]"]
  by (simp add: example_world_def example_breakpoint_def example_nuclideUriToUri_def
      Bridge_new_def continue_def send_def)

text \<open>
  C5. \<^verbatim>\<open>_sendAllBreakpoints\<close> does nothing when \<^verbatim>\<open>_suppressBreakpointSync\<close> is true; when it
  is false it sends exactly one SyncBreakpoints command whose argument is the array with
  one \<^verbatim>\<open>{sourceURL, lineNumber, condition, enabled}\<close> entry per breakpoint of the store, in
  the order of the store.
\<close>

theorem sendAllBreakpoints_gated:
  "(suppressBreakpointSync s \<longrightarrow> sendAllBreakpoints w s = s)
   \<and> (\<not> suppressBreakpointSync s \<longrightarrow>
        sendAllBreakpoints w s =
          s\<lparr>sent := sent s @
               [Command ''SyncBreakpoints''
                  [JArr (map (\<lambda>bp. JObj [(''sourceURL'', JStr (nuclideUriToUri w (path bp))),
                                          (''lineNumber'', JNum (line bp)),
                                          (''condition'', JStr (condition bp)),
                                          (''enabled'', JBool (enabled bp))])
                             (allBreakpoints w))]]\<rparr>)"
proof -
  have fn: "ipc_breakpoint w = (\<lambda>bp. JObj [(''sourceURL'', JStr (nuclideUriToUri w (path bp))),
                                    (''lineNumber'', JNum (line bp)),
                                    (''condition'', JStr (condition bp)),
                                    (''enabled'', JBool (enabled bp))])"
    by (rule ext) (simp add: ipc_breakpoint_def)
  show ?thesis
    by (simp add: sendAllBreakpoints_def send_def results_fold fn)
qed

theorem sendAllBreakpoints_gated_witness:
  "suppressBreakpointSync (Bridge_new\<lparr>suppressBreakpointSync := True\<rparr>)
   \<and> sent (sendAllBreakpoints example_world (Bridge_new\<lparr>suppressBreakpointSync := True\<rparr>)) = []
   \<and> \<not> suppressBreakpointSync Bridge_new
   \<and> sent (sendAllBreakpoints example_world Bridge_new) =
       [Command ''SyncBreakpoints''
          [JArr [JObj [(''sourceURL'', JStr ''file:///a.js''), (''lineNumber'', JNum 3),
                       (''condition'', JStr []), (''enabled'', JBool True)],
                 JObj [(''sourceURL'', JStr ''file:///b.js''), (''lineNumber'', JNum 7),
                       (''condition'', JStr ''x > 1''), (''enabled'', JBool False)]]]]"
  using sendAllBreakpoints_gated
      [where s = "Bridge_new\<lparr>suppressBreakpointSync := True\<rparr>" and w = example_world]
    sendAllBreakpoints_gated [where s = Bridge_new and w = example_world]
  by (simp add: Bridge_new_def example_world_def example_breakpoint_def example_nuclideUriToUri_def)

lemma call_mutation_calls: "calls (snd (call_mutation w a s)) = calls s @ [a]"
  by (simp add: call_mutation_def Let_def listener_fold_calls call_action_simps)

lemma get_prop_field: "\<not> is_nullish v \<Longrightarrow> get_prop v k = Inr (field v k)"
  by (cases v) simp_all

lemma get_prop_nullish: "is_nullish v \<Longrightarrow> get_prop v k = Inl TypeError"
  by (cases v) simp_all

lemma bindBreakpoint_calls:
  "calls (snd (bindBreakpoint w bp resolved s)) =
     (if \<not> is_nullish bp \<and> truthy (uriToNuclideUri w (field bp ''sourceURL''))
      then calls s @ [BindBreakpointIPC (uriToNuclideUri w (field bp ''sourceURL''))
                        (field bp ''lineNumber'') (field bp ''condition'') (field bp ''enabled'')
                        resolved]
      else calls s)"
  by (simp add: bindBreakpoint_def Let_def call_mutation_calls)

lemma removeBreakpoint_calls:
  "calls (snd (removeBreakpoint w bp s)) =
     (if \<not> is_nullish bp \<and> truthy (uriToNuclideUri w (field bp ''sourceURL''))
      then calls s @ [DeleteBreakpointIPC (uriToNuclideUri w (field bp ''sourceURL''))
                        (field bp ''lineNumber'')]
      else calls s)"
  by (simp add: removeBreakpoint_def Let_def call_mutation_calls)

lemma bindBreakpoint_not_local:
  "is_nullish bp \<or> \<not> truthy (uriToNuclideUri w (field bp ''sourceURL'')) \<Longrightarrow>
     snd (bindBreakpoint w bp resolved s) = s"
  by (auto simp add: bindBreakpoint_def Let_def)

lemma removeBreakpoint_not_local:
  "is_nullish bp \<or> \<not> truthy (uriToNuclideUri w (field bp ''sourceURL'')) \<Longrightarrow>
     snd (removeBreakpoint w bp s) = s"
  by (auto simp add: removeBreakpoint_def Let_def)

lemma handle_BreakpointAdded:
  "handleIpcMessage w \<lparr>channel = ''notification'', args = [JStr ''BreakpointAdded'', bp]\<rparr> s =
     (if is_nullish bp then (Threw TypeError, s)
      else bindBreakpoint w bp (field bp ''resolved'' = JBool True) s)"
  by (simp add: handleIpcMessage_def arg_def Let_def get_prop_field get_prop_nullish)

lemma handle_BreakpointRemoved:
  "handleIpcMessage w \<lparr>channel = ''notification'', args = [JStr ''BreakpointRemoved'', bp]\<rparr> s =
     removeBreakpoint w bp s"
  by (simp add: handleIpcMessage_def arg_def Let_def)

text \<open>
  C6. The event BreakpointAdded calls \<^verbatim>\<open>bindBreakpointIPC\<close> exactly when the payload's
  sourceURL resolves to a local path (\<^verbatim>\<open>uriToNuclideUri\<close> gives a truthy path), with that
  path, the payload's lineNumber, condition and enabled, and with
  \<^verbatim>\<open>resolved = (payload.resolved === true)\<close>; the event BreakpointRemoved calls
  \<^verbatim>\<open>deleteBreakpointIPC\<close> with the path and the lineNumber under the same filter; an event
  whose sourceURL does not resolve leaves the whole state as it was, so the model is not
  called.
\<close>

theorem breakpoint_events_locality_filter:
  "calls (snd (handleIpcMessage w
                 \<lparr>channel = ''notification'', args = [JStr ''BreakpointAdded'', bp]\<rparr> s)) =
     (if \<not> is_nullish bp \<and> truthy (uriToNuclideUri w (field bp ''sourceURL''))
      then calls s @ [BindBreakpointIPC (uriToNuclideUri w (field bp ''sourceURL''))
                        (field bp ''lineNumber'') (field bp ''condition'') (field bp ''enabled'')
                        (field bp ''resolved'' = JBool True)]
      else calls s)
   \<and> calls (snd (handleIpcMessage w
                   \<lparr>channel = ''notification'', args = [JStr ''BreakpointRemoved'', bp]\<rparr> s)) =
     (if \<not> is_nullish bp \<and> truthy (uriToNuclideUri w (field bp ''sourceURL''))
      then calls s @ [DeleteBreakpointIPC (uriToNuclideUri w (field bp ''sourceURL''))
                        (field bp ''lineNumber'')]
      else calls s)
   \<and> (\<not> truthy (uriToNuclideUri w (field bp ''sourceURL'')) \<longrightarrow>
        snd (handleIpcMessage w
               \<lparr>channel = ''notification'', args = [JStr ''BreakpointAdded'', bp]\<rparr> s) = s
        \<and> snd (handleIpcMessage w
               \<lparr>channel = ''notification'', args = [JStr ''BreakpointRemoved'', bp]\<rparr> s) = s)"
  by (simp add: handle_BreakpointAdded handle_BreakpointRemoved bindBreakpoint_calls
      removeBreakpoint_calls bindBreakpoint_not_local removeBreakpoint_not_local)

theorem breakpoint_events_locality_filter_witness:
  "calls (snd (handleIpcMessage example_world
                 \<lparr>channel = ''notification'', args = [JStr ''BreakpointAdded'', local_breakpoint]\<rparr>
                 Bridge_new)) =
     [BindBreakpointIPC (JStr ''/a.js'') (JNum 3) (JStr []) (JBool True) True]
   \<and> calls (snd (handleIpcMessage example_world
                 \<lparr>channel = ''notification'', args = [JStr ''BreakpointRemoved'', local_breakpoint]\<rparr>
                 Bridge_new)) =
     [DeleteBreakpointIPC (JStr ''/a.js'') (JNum 3)]
   \<and> snd (handleIpcMessage example_world
                 \<lparr>channel = ''notification'', args = [JStr ''BreakpointAdded'', remote_breakpoint]\<rparr>
                 Bridge_new) = Bridge_new
   \<and> snd (handleIpcMessage example_world
                 \<lparr>channel = ''notification'', args = [JStr ''BreakpointRemoved'', remote_breakpoint]\<rparr>
                 Bridge_new) = Bridge_new"
  using breakpoint_events_locality_filter
      [where w = example_world and bp = local_breakpoint and s = Bridge_new]
    breakpoint_events_locality_filter
      [where w = example_world and bp = remote_breakpoint and s = Bridge_new]
  by (simp add: example_world_def local_breakpoint_def remote_breakpoint_def
      example_uriToNuclideUri_def Bridge_new_def)

text \<open>
  C7. The event NonLoaderDebuggerPaused with
  \<^verbatim>\<open>{stopThreadId: 7, threadSwitchNotification: null}\<close> sets the mode to PAUSED and the
  stop thread to 7 and notifies no thread switch. For every payload the mode is set to
  PAUSED; \<^verbatim>\<open>updateStopThread\<close> is called exactly when the payload carries a stopThreadId
  that is neither null nor undefined, and \<^verbatim>\<open>notifyThreadSwitch\<close> exactly when it carries
  such a threadSwitchNotification.
\<close>

theorem debugger_paused_updates:
  "handleIpcMessage w
     \<lparr>channel = ''notification'',
      args = [JStr ''NonLoaderDebuggerPaused'',
              JObj [(''stopThreadId'', JNum 7), (''threadSwitchNotification'', JNull)]]\<rparr> s =
     (Returned, s\<lparr>calls := calls s @ [SetDebuggerMode PAUSED, UpdateStopThread (JNum 7)]\<rparr>)
   \<and> handleIpcMessage w
        \<lparr>channel = ''notification'', args = [JStr ''NonLoaderDebuggerPaused'', options]\<rparr> s =
      (Returned,
       s\<lparr>calls := calls s @ [SetDebuggerMode PAUSED]
            @ (if \<not> is_nullish options \<and> \<not> is_nullish (field options ''stopThreadId'')
               then [UpdateStopThread (field options ''stopThreadId'')] else [])
            @ (if \<not> is_nullish options \<and> \<not> is_nullish (field options ''threadSwitchNotification'')
               then [NotifyThreadSwitch
                       (field (field options ''threadSwitchNotification'') ''sourceURL'')
                       (field (field options ''threadSwitchNotification'') ''lineNumber'')
                       (field (field options ''threadSwitchNotification'') ''message'')]
               else [])\<rparr>)"
  by (simp add: handleIpcMessage_def arg_def Let_def handleDebuggerPaused_def
      handleStopThreadUpdate_def handleStopThreadSwitch_def call_action_def)

theorem debugger_paused_updates_witness:
  "calls (snd (handleIpcMessage example_world
     \<lparr>channel = ''notification'',
      args = [JStr ''NonLoaderDebuggerPaused'',
              JObj [(''stopThreadId'', JNull),
                    (''threadSwitchNotification'',
                     JObj [(''sourceURL'', JStr ''file:///a.js''), (''lineNumber'', JNum 3),
                           (''message'', JStr ''switched'')])]]\<rparr> Bridge_new)) =
     [SetDebuggerMode PAUSED,
      NotifyThreadSwitch (JStr ''file:///a.js'') (JNum 3) (JStr ''switched'')]
   \<and> calls (snd (handleIpcMessage example_world
     \<lparr>channel = ''notification'', args = [JStr ''NonLoaderDebuggerPaused'', JUndefined]\<rparr>
        Bridge_new)) = [SetDebuggerMode PAUSED]"
  using debugger_paused_updates
      [where w = example_world and s = Bridge_new
         and options = "JObj [(''stopThreadId'', JNull),
                    (''threadSwitchNotification'',
                     JObj [(''sourceURL'', JStr ''file:///a.js''), (''lineNumber'', JNum 3),
                           (''message'', JStr ''switched'')])]"]
    debugger_paused_updates [where w = example_world and s = Bridge_new and options = JUndefined]
  by (simp add: Bridge_new_def)

text \<open>
  C8. A message whose channel is not "notification", and a notification whose
  \<^verbatim>\<open>args[0]\<close> is none of the fifteen handled event names, is ignored: the handler returns
  and the state is unchanged, so no command is sent and the model is not called.
\<close>

theorem unknown_messages_ignored:
  "channel event \<noteq> ''notification'' \<or> arg (args event) 0 \<notin> JStr ` set handled_event_names \<Longrightarrow>
     handleIpcMessage w event s = (Returned, s)"
  by (auto simp add: handleIpcMessage_def Let_def handled_event_names_def)

theorem unknown_messages_ignored_witness:
  "handleIpcMessage example_world \<lparr>channel = ''command'', args = [JStr ''ready'']\<rparr> Bridge_new
     = (Returned, Bridge_new)
   \<and> handleIpcMessage example_world
        \<lparr>channel = ''notification'', args = [JStr ''BreakpointHit'', local_breakpoint]\<rparr> Bridge_new
     = (Returned, Bridge_new)
   \<and> handleIpcMessage example_world \<lparr>channel = ''notification'', args = []\<rparr> Bridge_new
     = (Returned, Bridge_new)"
proof -
  have a: "handleIpcMessage example_world \<lparr>channel = ''command'', args = [JStr ''ready'']\<rparr> Bridge_new
     = (Returned, Bridge_new)"
    by (rule unknown_messages_ignored) simp
  have b: "handleIpcMessage example_world
        \<lparr>channel = ''notification'', args = [JStr ''BreakpointHit'', local_breakpoint]\<rparr> Bridge_new
     = (Returned, Bridge_new)"
    by (rule unknown_messages_ignored) (simp add: arg_def handled_event_names_def)
  have c: "handleIpcMessage example_world \<lparr>channel = ''notification'', args = []\<rparr> Bridge_new
     = (Returned, Bridge_new)"
    by (rule unknown_messages_ignored) (auto simp add: arg_def handled_event_names_def)
  from a b c show ?thesis by simp
qed

lemma digit_not_white_space: "is_digit c \<Longrightarrow> \<not> is_white_space c"
  by (auto simp add: is_digit_def is_white_space_def)

lemma digit_not_sign: "is_digit c \<Longrightarrow> c \<noteq> CHR ''+'' \<and> c \<noteq> CHR ''-''"
  by (auto simp add: is_digit_def)

lemma takeWhile_digits:
  assumes "\<forall>c\<in>set ds. is_digit c" and "rest = [] \<or> \<not> is_digit (hd rest)"
  shows "takeWhile is_digit (ds @ rest) = ds"
proof -
  have "takeWhile is_digit rest = []"
    using assms(2) by (cases rest) auto
  with assms(1) show ?thesis
    by simp
qed

lemma parseInt_signed_digits:
  assumes "ds \<noteq> []" and "\<forall>c\<in>set ds. is_digit c" and "rest = [] \<or> \<not> is_digit (hd rest)"
    and "\<forall>c\<in>set ws. is_white_space c"
  shows "parseInt (ws @ CHR ''-'' # ds @ rest) = to_number True (decimal ds)"
    and "parseInt (ws @ CHR ''+'' # ds @ rest) = to_number False (decimal ds)"
    and "parseInt (ws @ ds @ rest) = to_number False (decimal ds)"
proof -
  obtain d ds' where ds: "ds = d # ds'"
    using assms(1) by (cases ds) auto
  with assms(2) have d: "is_digit d" by simp
  have sign: "\<not> is_white_space (CHR ''-'')" "\<not> is_white_space (CHR ''+'')"
    by (simp_all add: is_white_space_def)
  have drop: "dropWhile is_white_space (ws @ CHR ''-'' # ds @ rest) = CHR ''-'' # ds @ rest"
    "dropWhile is_white_space (ws @ CHR ''+'' # ds @ rest) = CHR ''+'' # ds @ rest"
    "dropWhile is_white_space (ws @ ds @ rest) = ds @ rest"
    using assms(4) ds d sign by (simp_all add: digit_not_white_space)
  note tw = takeWhile_digits [OF assms(2,3)]
  show "parseInt (ws @ CHR ''-'' # ds @ rest) = to_number True (decimal ds)"
    unfolding parseInt_def drop Let_def using tw assms(1) by simp
  show "parseInt (ws @ CHR ''+'' # ds @ rest) = to_number False (decimal ds)"
    unfolding parseInt_def drop Let_def using tw assms(1) by simp
  show "parseInt (ws @ ds @ rest) = to_number False (decimal ds)"
    unfolding parseInt_def drop Let_def using tw assms(1) ds d by (simp add: digit_not_sign)
qed

lemma decimal_snoc: "decimal (ds @ [c]) = 10 * decimal ds + digit_value c"
  by (simp add: decimal_def)

lemma decimal_positional:
  "decimal ds = (\<Sum>i<length ds. (of_char (ds ! i) - 48) * 10 ^ (length ds - Suc i) :: int)"
proof (induction ds rule: rev_induct)
  case Nil
  then show ?case by (simp add: decimal_def)
next
  case (snoc c ds)
  have "(\<Sum>i<length ds. (of_char ((ds @ [c]) ! i) - 48) * 10 ^ (length (ds @ [c]) - Suc i) :: int)
      = (\<Sum>i<length ds. 10 * ((of_char (ds ! i) - 48) * 10 ^ (length ds - Suc i)))"
  proof (rule sum.cong)
    fix i assume "i \<in> {..<length ds}"
    then have i: "i < length ds" by simp
    then have "length (ds @ [c]) - Suc i = Suc (length ds - Suc i)" by simp
    with i show "(of_char ((ds @ [c]) ! i) - 48) * 10 ^ (length (ds @ [c]) - Suc i)
        = (10 * ((of_char (ds ! i) - 48) * 10 ^ (length ds - Suc i)) :: int)"
      by (simp add: nth_append)
  qed simp
  also have "\<dots> = 10 * decimal ds"
    by (simp add: snoc.IH sum_distrib_left)
  finally show ?case
    by (simp add: decimal_snoc digit_value_def)
qed

lemma digit_value_nonneg: "is_digit c \<Longrightarrow> 0 \<le> digit_value c"
  by (auto simp add: is_digit_def digit_value_def)

lemma decimal_nonneg: "\<forall>c\<in>set ds. is_digit c \<Longrightarrow> 0 \<le> decimal ds"
proof (induction ds rule: rev_induct)
  case Nil
  then show ?case by (simp add: decimal_def)
next
  case (snoc c ds)
  then have "0 \<le> decimal ds" "0 \<le> digit_value c"
    by (simp_all add: digit_value_nonneg)
  then show ?case
    unfolding decimal_snoc by simp
qed

text \<open>
  C9, as amended. \<^verbatim>\<open>parseInt(threadId, 10)\<close> reads the leading decimal digits and
  ignores what follows them: for a thread id made of one or more digits whose value \<open>n\<close>
  is at most 2^53, followed by a character that is not a digit, \<^verbatim>\<open>selectThread\<close> sends
  the command with the whole string and calls \<^verbatim>\<open>updateSelectedThread\<close> with \<open>n\<close> (with
  \<open>-n\<close>, which is -0 for \<open>n = 0\<close>, when a minus sign precedes the digits), although the
  whole string is not an integer.
\<close>

theorem selectThread_leading_integer:
  assumes "ds \<noteq> []" and "set ds \<subseteq> set ''0123456789''"
    and "rest \<noteq> []" and "hd rest \<notin> set ''0123456789''"
    and "n = (\<Sum>i<length ds. (of_char (ds ! i) - 48) * 10 ^ (length ds - Suc i))"
    and "n \<le> 2 ^ 53"
  shows "selectThread (ds @ rest) s =
           s\<lparr>sent := sent s @ [Command ''selectThread'' [JStr (ds @ rest)]],
             calls := calls s @ [UpdateSelectedThread (Finite n)]\<rparr>
    \<and> selectThread (CHR ''-'' # ds @ rest) s =
           s\<lparr>sent := sent s @ [Command ''selectThread'' [JStr (CHR ''-'' # ds @ rest)]],
             calls := calls s @ [UpdateSelectedThread (if n = 0 then NegZero else Finite (- n))]\<rparr>"
proof -
  have digits: "\<forall>c\<in>set ds. is_digit c"
    unfolding is_digit_def using assms(2) by (rule subsetD [THEN ballI])
  have tail: "rest = [] \<or> \<not> is_digit (hd rest)"
    unfolding is_digit_def using assms(4) by (rule disjI2)
  have no_ws: "\<forall>c\<in>set []. is_white_space c"
    by simp
  have n: "decimal ds = n"
    using assms(5) by (simp add: decimal_positional)
  have "0 \<le> n"
    using decimal_nonneg [OF digits] n by simp
  then have round: "round_to_double n = Some n"
    using assms(6) by (rule round_exact)
  have plain: "parseInt (ds @ rest) = Finite n"
    using parseInt_signed_digits(3) [OF assms(1) digits tail no_ws] n round
    by (simp add: to_number_def)
  have minus: "parseInt (CHR ''-'' # ds @ rest) = (if n = 0 then NegZero else Finite (- n))"
    using parseInt_signed_digits(1) [OF assms(1) digits tail no_ws] n round
    by (simp add: to_number_def)
  have "selectThread (ds @ rest) s =
           s\<lparr>sent := sent s @ [Command ''selectThread'' [JStr (ds @ rest)]],
             calls := calls s @ [UpdateSelectedThread (Finite n)]\<rparr>"
    using plain by (simp add: selectThread_def send_def call_action_def isNaN_def)
  moreover have "selectThread (CHR ''-'' # ds @ rest) s =
           s\<lparr>sent := sent s @ [Command ''selectThread'' [JStr (CHR ''-'' # ds @ rest)]],
             calls := calls s @ [UpdateSelectedThread (if n = 0 then NegZero else Finite (- n))]\<rparr>"
    using minus by (simp add: selectThread_def send_def call_action_def isNaN_def)
  ultimately show ?thesis
    by simp
qed

theorem selectThread_leading_integer_witness:
  "selectThread ''42abc'' Bridge_new =
       Bridge_new\<lparr>sent := [Command ''selectThread'' [JStr ''42abc'']],
                  calls := [UpdateSelectedThread (Finite 42)]\<rparr>
   \<and> selectThread ''-42abc'' Bridge_new =
       Bridge_new\<lparr>sent := [Command ''selectThread'' [JStr ''-42abc'']],
                  calls := [UpdateSelectedThread (Finite (- 42))]\<rparr>"
proof -
  have digits: "''42'' \<noteq> []" "set ''42'' \<subseteq> set ''0123456789''"
    by simp_all
  have rest: "''abc'' \<noteq> []" "hd ''abc'' \<notin> set ''0123456789''"
    by simp_all
  have n: "(42::int) = (\<Sum>i<length ''42''. (of_char (''42'' ! i) - 48) * 10 ^ (length ''42'' - Suc i))"
    by (simp add: lessThan_Suc numeral_2_eq_2)
  have bound: "(42::int) \<le> 2 ^ 53"
    by simp
  from selectThread_leading_integer [OF digits rest n bound, of Bridge_new]
  show ?thesis
    by (simp add: Bridge_new_def)
qed

lemma decimal_9007199254740993: "decimal ''9007199254740993'' = 9007199254740993"
  by (simp add: decimal_def digit_value_def)

lemma round_9007199254740993: "round_to_double 9007199254740993 = Some 9007199254740992"
proof -
  have "shift_count 9007199254740993 = 1"
    by (rule shift_count_next) simp_all
  then show ?thesis
    by (simp add: round_to_double_def)
qed

text \<open>
  C9 as stated fails beyond 2^53, where \<^verbatim>\<open>parseInt\<close> gives the nearest double: for the
  thread id "9007199254740993abc" the command carries the whole string and the model is
  given 9007199254740992, which is not the leading integer.
\<close>

theorem selectThread_beyond_2_53_counterexample:
  "selectThread ''9007199254740993abc'' Bridge_new =
       Bridge_new\<lparr>sent := [Command ''selectThread'' [JStr ''9007199254740993abc'']],
                  calls := [UpdateSelectedThread (Finite 9007199254740992)]\<rparr>
   \<and> calls (selectThread ''9007199254740993abc'' Bridge_new)
       \<noteq> [UpdateSelectedThread (Finite 9007199254740993)]"
proof -
  have "parseInt ''9007199254740993abc'' = Finite 9007199254740992"
    by (simp add: parseInt_def is_white_space_def is_digit_def decimal_9007199254740993
        to_number_def round_9007199254740993)
  then show ?thesis
    by (simp add: selectThread_def send_def call_action_def isNaN_def Bridge_new_def)
qed




lemma char_strings_not_nullish: "\<forall>c\<in>set (map (\<lambda>c. JStr [c]) s). \<not> is_nullish c"
  by simp










end
